theory Spec2Isabelle
  imports Complex_Main
begin

section \<open>Python values used by app.py\<close>

subsection \<open>Exceptions\<close>

text \<open>
  The two \<open>except\<close> clauses of app.py select by class: \<open>except RuntimeError\<close> and
  \<open>except Exception\<close>. An exception class is therefore modelled by its place in the class
  hierarchy. The classes that the modelled code raises itself have constructors of their own;
  the string of the remaining constructors is the class name.
\<close>

datatype exc_class =
    RuntimeError
  | ValueError
  | AttributeError
  | BadRequest
  | RuntimeErrorSubclass string
  | ExceptionSubclass string
  | BaseExceptionOnly string

text \<open>An exception value: its class and \<open>str(e)\<close>.\<close>

datatype exc = Exc (cls: exc_class) (msg: string)

fun isinstance_RuntimeError :: "exc_class \<Rightarrow> bool" where
  "isinstance_RuntimeError RuntimeError = True"
| "isinstance_RuntimeError (RuntimeErrorSubclass n) = True"
| "isinstance_RuntimeError c = False"

fun isinstance_Exception :: "exc_class \<Rightarrow> bool" where
  "isinstance_Exception (BaseExceptionOnly n) = False"
| "isinstance_Exception c = True"

fun class_name :: "exc_class \<Rightarrow> string" where
  "class_name RuntimeError = ''RuntimeError''"
| "class_name ValueError = ''ValueError''"
| "class_name AttributeError = ''AttributeError''"
| "class_name BadRequest = ''werkzeug.exceptions.BadRequest''"
| "class_name (RuntimeErrorSubclass n) = n"
| "class_name (ExceptionSubclass n) = n"
| "class_name (BaseExceptionOnly n) = n"

subsection \<open>Decimal rendering and parsing of integers\<close>

definition digit_char :: "nat \<Rightarrow> char" where
  "digit_char d = ''0123456789'' ! d"

fun str_nat :: "nat \<Rightarrow> string" where
  "str_nat n = (if n < 10 then [digit_char n] else str_nat (n div 10) @ [digit_char (n mod 10)])"

declare str_nat.simps [simp del]

text \<open>\<open>str(n)\<close> for a Python int.\<close>

definition str_int :: "int \<Rightarrow> string" where
  "str_int n = (if n < 0 then CHR ''-'' # str_nat (nat (- n)) else str_nat (nat n))"

definition is_digit :: "char \<Rightarrow> bool" where
  "is_digit c = (48 \<le> (of_char c :: nat) \<and> (of_char c :: nat) \<le> 57)"

definition digit_val :: "char \<Rightarrow> nat" where
  "digit_val c = (of_char c :: nat) - 48"

text \<open>
  The characters \<open>int()\<close> strips from both ends of its argument: tab, line feed, vertical tab,
  form feed, carriage return, the separators 0x1C to 0x1F and the space.
\<close>

definition is_space :: "char \<Rightarrow> bool" where
  "is_space c = (let n = (of_char c :: nat) in (9 \<le> n \<and> n \<le> 13) \<or> (28 \<le> n \<and> n \<le> 32))"

definition strip :: "string \<Rightarrow> string" where
  "strip s = rev (dropWhile is_space (rev (dropWhile is_space s)))"

text \<open>
  The digits of a decimal literal: groups of digits separated by single underscores. The flag
  says whether the previous character was a digit.
\<close>

fun dec_digits :: "bool \<Rightarrow> nat \<Rightarrow> string \<Rightarrow> nat option" where
  "dec_digits prev acc [] = (if prev then Some acc else None)"
| "dec_digits prev acc (c # cs) =
     (if is_digit c then dec_digits True (10 * acc + digit_val c) cs
      else if c = CHR ''_'' \<and> prev then dec_digits False acc cs
      else None)"

text \<open>
  \<open>int(s)\<close> for a string \<open>s\<close>: \<open>None\<close> stands for the ValueError. Characters are bytes here;
  the non-ASCII digits and spaces that Python also accepts, and the interpreter's limit on the
  number of digits, are outside this model.
\<close>

definition py_int :: "string \<Rightarrow> int option" where
  "py_int s =
     (case strip s of
        [] \<Rightarrow> None
      | c # cs \<Rightarrow>
          if c = CHR ''-'' then map_option (\<lambda>n. - int n) (dec_digits False 0 cs)
          else if c = CHR ''+'' then map_option int (dec_digits False 0 cs)
          else map_option int (dec_digits False 0 (c # cs)))"

text \<open>\<open>repr(s)\<close> of a string without quote or escape characters, as the ValueError of \<open>int\<close> prints it.\<close>

definition repr_str :: "string \<Rightarrow> string" where
  "repr_str s = [CHR 0x27] @ s @ [CHR 0x27]"

definition lower_char :: "char \<Rightarrow> char" where
  "lower_char c =
     (let n = (of_char c :: nat) in if 65 \<le> n \<and> n \<le> 90 then char_of (n + 32) else c)"

text \<open>\<open>s.lower()\<close> on ASCII letters.\<close>

definition lower :: "string \<Rightarrow> string" where
  "lower s = map lower_char s"

section \<open>The world outside the process\<close>

text \<open>
  What \<open>hana_cfg\<close> returns: the dictionary with its six keys. \<open>address\<close>, \<open>user\<close> and
  \<open>password\<close> are \<open>None\<close> when the variable is not set.
\<close>

record hana_config =
  address :: "string option"
  port :: int
  user :: "string option"
  password :: "string option"
  encrypt :: bool
  sslValidateCertificate :: bool

text \<open>
  The calls of a handler that can raise once it has a session: the calls on the session and
  its cursor, where the number is the index of the \<open>execute\<close> call within the handler, and
  \<open>OpJsonify\<close>, the building of the response (the list of products, \<open>jsonify\<close>) from
  values the driver returned, which every handler does after \<open>conn.close()\<close>.
\<close>

datatype db_op =
  OpCursor | OpExecute nat | OpFetch | OpCommit | OpCursorClose | OpConnClose | OpJsonify

text \<open>
  A row of PRODUCT_EMBEDDINGS. NAME and DESCRIPTION hold what the handler passed as the
  statement's parameter (a JSON value of the request, see below).
\<close>

datatype json =
    JNull
  | JBool bool
  | JInt int
  | JFloat real
  | JStr string
  | JArr "json list"
  | JObj "(string \<times> json) list"

record product =
  PRODUCT_ID :: int
  NAME :: json
  DESCRIPTION :: json
  VECTOR :: json

text \<open>
  The collaborators of one request, fixed while it is handled:
  \<^item> \<open>dbapi_is_None\<close>: the import of hdbcli failed, so that \<open>dbapi = None\<close>;
  \<^item> \<open>environ\<close>: \<open>os.environ\<close>;
  \<^item> \<open>dial cfg n\<close>: the outcome of the call of \<open>dbapi.connect\<close> with the fields of \<open>cfg\<close>
    that \<open>n\<close> calls precede: \<open>None\<close> when it returns a connection, the exception otherwise;
  \<^item> \<open>db_fault\<close>: the exception such a call raises, if it raises;
  \<^item> \<open>stack_text\<close>: the stack entries that the traceback module prints for an exception;
  \<^item> \<open>tcp_probe\<close>, \<open>tls_probe\<close>: the outcomes of the two probes of \<open>tls_test\<close>.
\<close>

record runtime =
  dbapi_is_None :: bool
  environ :: "string \<Rightarrow> string option"
  dial :: "hana_config \<Rightarrow> nat \<Rightarrow> exc option"
  db_fault :: "db_op \<Rightarrow> exc option"
  stack_text :: "exc \<Rightarrow> string"
  tcp_probe :: "string option \<Rightarrow> int \<Rightarrow> exc option"
  tls_probe :: "string option \<Rightarrow> int \<Rightarrow> exc + json"

text \<open>
  What the handlers change:
  \<^item> \<open>dial_calls\<close>: the number of calls of \<open>dbapi.connect\<close> made so far;
  \<^item> \<open>sleep_log\<close>: the arguments of \<open>time.sleep\<close>, in call order. A Python float is
    modelled by a real number and \<open>backoff * i\<close> by the exact product, which is also the
    floating-point product for the default \<open>backoff = 1.0\<close>;
  \<^item> \<open>close_log\<close>: the sessions on which \<open>conn.close()\<close> returned, in call order (a
    session is named by the index of the dial call that opened it);
  \<^item> \<open>table\<close>: the rows of PRODUCT_EMBEDDINGS as the session sees them.
\<close>

record world =
  dial_calls :: nat
  sleep_log :: "real list"
  close_log :: "nat list"
  table :: "product list"

type_synonym 'a outcome = "(exc + 'a) \<times> world"

section \<open>Configuration and connection\<close>

text \<open>\<open>os.environ.get(k, d)\<close>.\<close>

definition environ_get :: "runtime \<Rightarrow> string \<Rightarrow> string \<Rightarrow> string" where
  "environ_get rt k d = (case environ rt k of None \<Rightarrow> d | Some v \<Rightarrow> v)"

text \<open>\<open>s.lower() in ("1","true","yes")\<close>.\<close>

definition flag_set :: "string \<Rightarrow> bool" where
  "flag_set s = (lower s = ''1'' \<or> lower s = ''true'' \<or> lower s = ''yes'')"

text \<open>The \<open>int(os.environ.get("HANA_PORT", 443))\<close> of \<open>hana_cfg\<close>.\<close>

definition port_of_environ :: "runtime \<Rightarrow> exc + int" where
  "port_of_environ rt =
     (case environ rt ''HANA_PORT'' of
        None \<Rightarrow> Inr 443
      | Some s \<Rightarrow>
          (case py_int s of
             None \<Rightarrow> Inl (Exc ValueError
                       (''invalid literal for int() with base 10: '' @ repr_str s))
           | Some p \<Rightarrow> Inr p))"

definition hana_cfg :: "runtime \<Rightarrow> exc + hana_config" where
  "hana_cfg rt =
     (case port_of_environ rt of
        Inl e \<Rightarrow> Inl e
      | Inr p \<Rightarrow>
          Inr \<lparr> address = environ rt ''HANA_ADDRESS'',
                port = p,
                user = environ rt ''HANA_USER'',
                password = environ rt ''HANA_PASSWORD'',
                encrypt = flag_set (environ_get rt ''HANA_ENCRYPT'' ''true''),
                sslValidateCertificate = flag_set (environ_get rt ''HANA_SSL_VALIDATE'' ''false'') \<rparr>)"

text \<open>\<open>not v\<close> for a value that is \<open>None\<close> or a string.\<close>

definition py_not :: "string option \<Rightarrow> bool" where
  "py_not v = (case v of None \<Rightarrow> True | Some s \<Rightarrow> s = [])"

text \<open>\<open>time.sleep(d)\<close>: a negative argument raises ValueError.\<close>

definition py_sleep :: "real \<Rightarrow> world \<Rightarrow> unit outcome" where
  "py_sleep d w =
     (if d < 0 then (Inl (Exc ValueError ''sleep length must be non-negative''), w)
      else (Inr (), w\<lparr>sleep_log := sleep_log w @ [d]\<rparr>))"

text \<open>
  \<open>"".join(traceback.format_exception(type(e), e, e.__traceback__))\<close>, which is also what
  \<open>traceback.format_exc()\<close> returns inside the handler of \<open>e\<close>: the header, the stack entries
  and the line of the exception. The sections that the traceback module puts in front of the
  header for a chained exception are left out.
\<close>

definition format_exception :: "runtime \<Rightarrow> exc \<Rightarrow> string" where
  "format_exception rt e =
     ''Traceback (most recent call last):\<newline>'' @ stack_text rt e @
     (if msg e = [] then class_name (cls e) else class_name (cls e) @ '': '' @ msg e) @
     ''\<newline>''"

text \<open>The messages of the two RuntimeErrors raised before the loop (lines 28 and 31).\<close>

definition msg_no_driver :: string where
  "msg_no_driver = ''hdbcli not installed in container''"

definition msg_cfg_missing :: string where
  "msg_cfg_missing =
     ''HANA config missing; set HANA_ADDRESS, HANA_PORT, HANA_USER, HANA_PASSWORD env vars.''"

text \<open>The message of the RuntimeError raised after the loop (line 45).\<close>

definition msg_unable :: "runtime \<Rightarrow> int \<Rightarrow> exc \<Rightarrow> string" where
  "msg_unable rt retries e =
     ''Unable to connect to HANA after '' @ str_int retries @ '' attempts. Last error: '' @
     msg e @ ''\<newline>Traceback:\<newline>'' @ format_exception rt e"

text \<open>
  The loop of \<open>connect_hana\<close> over the remaining values of \<open>i\<close>, followed by the two
  statements after it. \<open>last_e\<close> is the variable \<open>last\<close>. An exception of
  \<open>dbapi.connect\<close> that is not an instance of \<open>Exception\<close> is not caught, and an exception
  of \<open>time.sleep\<close> leaves the function, since it is raised inside the handler.
  When the loop ends with \<open>last\<close> still \<open>None\<close>, \<open>last.__traceback__\<close> raises.
\<close>

fun connect_loop ::
  "runtime \<Rightarrow> hana_config \<Rightarrow> int \<Rightarrow> real \<Rightarrow> int list \<Rightarrow> exc option \<Rightarrow> world \<Rightarrow> nat outcome"
where
  "connect_loop rt cfg retries backoff [] last_e w =
     (case last_e of
        None \<Rightarrow>
          (Inl (Exc AttributeError
             (repr_str ''NoneType'' @ '' object has no attribute '' @
              repr_str ''__traceback__'')), w)
      | Some e \<Rightarrow> (Inl (Exc RuntimeError (msg_unable rt retries e)), w))"
| "connect_loop rt cfg retries backoff (i # is) last_e w =
     (let n = dial_calls w; w1 = w\<lparr>dial_calls := n + 1\<rparr> in
      case dial rt cfg n of
        None \<Rightarrow> (Inr n, w1)
      | Some e \<Rightarrow>
          if isinstance_Exception (cls e) then
            (case py_sleep (backoff * real_of_int i) w1 of
               (Inl e', w2) \<Rightarrow> (Inl e', w2)
             | (Inr u, w2) \<Rightarrow> connect_loop rt cfg retries backoff is (Some e) w2)
          else (Inl e, w1))"

definition connect_hana :: "runtime \<Rightarrow> int \<Rightarrow> real \<Rightarrow> world \<Rightarrow> nat outcome" where
  "connect_hana rt retries backoff w =
     (if dbapi_is_None rt then (Inl (Exc RuntimeError msg_no_driver), w)
      else
        case hana_cfg rt of
          Inl e \<Rightarrow> (Inl e, w)
        | Inr cfg \<Rightarrow>
            if py_not (address cfg) \<or> py_not (user cfg) \<or> py_not (password cfg)
            then (Inl (Exc RuntimeError msg_cfg_missing), w)
            else connect_loop rt cfg retries backoff [1..retries] None w)"

section \<open>The error envelope\<close>

text \<open>A response: the JSON body given to \<open>jsonify\<close> and the status code (200 when the
  handler returns the body alone).\<close>

type_synonym response = "json \<times> nat"

text \<open>
  The wrapper that \<open>api_ok\<close> returns, applied to the arguments of a request: \<open>fn\<close> is the
  handler with its arguments. The first clause catches RuntimeError and its subclasses, the
  second every other instance of Exception; anything else propagates.
\<close>

definition api_ok :: "runtime \<Rightarrow> (world \<Rightarrow> response outcome) \<Rightarrow> world \<Rightarrow> response outcome" where
  "api_ok rt fn w =
     (case fn w of
        (Inr r, w') \<Rightarrow> (Inr r, w')
      | (Inl e, w') \<Rightarrow>
          if isinstance_RuntimeError (cls e) then
            (Inr (JObj [(''error'', JStr ''connection_error''), (''message'', JStr (msg e))],
                  502), w')
          else if isinstance_Exception (cls e) then
            (Inr (JObj [(''error'', JStr ''internal''), (''message'', JStr (msg e)),
                        (''trace'', JStr (format_exception rt e))], 500), w')
          else (Inl e, w'))"

section \<open>Requests and the session\<close>

text \<open>Sequencing of two steps: an exception of the first ends the run.\<close>

definition seq :: "(world \<Rightarrow> 'a outcome) \<Rightarrow> ('a \<Rightarrow> world \<Rightarrow> 'b outcome) \<Rightarrow> world \<Rightarrow> 'b outcome" where
  "seq m f w = (case m w of (Inl e, w') \<Rightarrow> (Inl e, w') | (Inr x, w') \<Rightarrow> f x w')"

definition ret :: "'a \<Rightarrow> world \<Rightarrow> 'a outcome" where
  "ret x w = (Inr x, w)"

text \<open>
  \<open>request.get_json(force=True)\<close>: the body of the request is \<open>None\<close> when it is not a JSON
  document, and then werkzeug's BadRequest is raised.
\<close>

definition get_json :: "json option \<Rightarrow> world \<Rightarrow> json outcome" where
  "get_json body w =
     (case body of
        None \<Rightarrow>
          (Inl (Exc BadRequest
             (''400 Bad Request: The browser (or proxy) sent a request that this server '' @
              ''could not understand.'')), w)
      | Some j \<Rightarrow> (Inr j, w))"

fun type_name :: "json \<Rightarrow> string" where
  "type_name JNull = ''NoneType''"
| "type_name (JBool b) = ''bool''"
| "type_name (JInt n) = ''int''"
| "type_name (JFloat x) = ''float''"
| "type_name (JStr s) = ''str''"
| "type_name (JArr xs) = ''list''"
| "type_name (JObj kvs) = ''dict''"

text \<open>
  \<open>payload.get(k, d)\<close>: only a dict has the method. The last of several members with the
  same key is the one the parsed dict holds. Python's \<open>None\<close> and JSON's null are the same
  value, \<open>JNull\<close>.
\<close>

definition dict_get :: "(string \<times> json) list \<Rightarrow> string \<Rightarrow> json \<Rightarrow> json" where
  "dict_get kvs k d = (case map_of (rev kvs) k of None \<Rightarrow> d | Some v \<Rightarrow> v)"

fun payload_get :: "json \<Rightarrow> string \<Rightarrow> json \<Rightarrow> world \<Rightarrow> json outcome" where
  "payload_get (JObj kvs) k d w = (Inr (dict_get kvs k d), w)"
| "payload_get j k d w =
     (Inl (Exc AttributeError
        (repr_str (type_name j) @ '' object has no attribute '' @ repr_str ''get'')), w)"

text \<open>\<open>bool(v)\<close> of a parsed JSON value.\<close>

fun truthy :: "json \<Rightarrow> bool" where
  "truthy JNull = False"
| "truthy (JBool b) = b"
| "truthy (JInt n) = (n \<noteq> 0)"
| "truthy (JFloat x) = (x \<noteq> 0)"
| "truthy (JStr s) = (s \<noteq> [])"
| "truthy (JArr xs) = (xs \<noteq> [])"
| "truthy (JObj kvs) = (kvs \<noteq> [])"

text \<open>A call on the session or its cursor that changes nothing the model records.\<close>

definition db_call :: "runtime \<Rightarrow> db_op \<Rightarrow> world \<Rightarrow> unit outcome" where
  "db_call rt op w = (case db_fault rt op of Some e \<Rightarrow> (Inl e, w) | None \<Rightarrow> (Inr (), w))"

text \<open>\<open>conn.close()\<close> on the session \<open>conn\<close>.\<close>

definition conn_close :: "runtime \<Rightarrow> nat \<Rightarrow> world \<Rightarrow> unit outcome" where
  "conn_close rt conn w =
     (case db_fault rt OpConnClose of
        Some e \<Rightarrow> (Inl e, w)
      | None \<Rightarrow> (Inr (), w\<lparr>close_log := close_log w @ [conn]\<rparr>))"

text \<open>\<open>cur.fetchall()\<close> after the SELECT of \<open>list_products\<close>: the rows by ascending
  PRODUCT_ID.\<close>

definition fetchall :: "runtime \<Rightarrow> world \<Rightarrow> product list outcome" where
  "fetchall rt w =
     (case db_fault rt OpFetch of
        Some e \<Rightarrow> (Inl e, w)
      | None \<Rightarrow> (Inr (sort_key PRODUCT_ID (table w)), w))"

text \<open>MAX(PRODUCT_ID): NULL on the empty table.\<close>

fun max_product_id :: "product list \<Rightarrow> int option" where
  "max_product_id [] = None"
| "max_product_id (r # rs) =
     (case max_product_id rs of None \<Rightarrow> Some (PRODUCT_ID r) | Some m \<Rightarrow> Some (max (PRODUCT_ID r) m))"

text \<open>\<open>cur.fetchone()\<close> after SELECT MAX(PRODUCT_ID): the one row of the aggregate, whose
  only column is the maximum or NULL.\<close>

definition fetchone :: "runtime \<Rightarrow> world \<Rightarrow> int option option outcome" where
  "fetchone rt w =
     (case db_fault rt OpFetch of
        Some e \<Rightarrow> (Inl e, w)
      | None \<Rightarrow> (Inr (Some (max_product_id (table w))), w))"

text \<open>The INSERT of \<open>insert_product\<close>, the \<open>n\<close>-th \<open>execute\<close> of its handler.\<close>

definition execute_insert :: "runtime \<Rightarrow> nat \<Rightarrow> product \<Rightarrow> world \<Rightarrow> unit outcome" where
  "execute_insert rt n r w =
     (case db_fault rt (OpExecute n) of
        Some e \<Rightarrow> (Inl e, w)
      | None \<Rightarrow> (Inr (), w\<lparr>table := table w @ [r]\<rparr>))"

text \<open>The UPDATE of \<open>update_product\<close>; the result is \<open>cur.rowcount\<close>.\<close>

definition execute_update :: "runtime \<Rightarrow> nat \<Rightarrow> json \<Rightarrow> string \<Rightarrow> world \<Rightarrow> nat outcome" where
  "execute_update rt n d nm w =
     (case db_fault rt (OpExecute n) of
        Some e \<Rightarrow> (Inl e, w)
      | None \<Rightarrow>
          (Inr (length (filter (\<lambda>r. NAME r = JStr nm) (table w))),
           w\<lparr>table := map (\<lambda>r. if NAME r = JStr nm then r\<lparr>DESCRIPTION := d\<rparr> else r) (table w)\<rparr>))"

text \<open>The DELETE of \<open>delete_product\<close>; the result is \<open>cur.rowcount\<close>.\<close>

definition execute_delete :: "runtime \<Rightarrow> nat \<Rightarrow> string \<Rightarrow> world \<Rightarrow> nat outcome" where
  "execute_delete rt n nm w =
     (case db_fault rt (OpExecute n) of
        Some e \<Rightarrow> (Inl e, w)
      | None \<Rightarrow>
          (Inr (length (filter (\<lambda>r. NAME r = JStr nm) (table w))),
           w\<lparr>table := filter (\<lambda>r. NAME r \<noteq> JStr nm) (table w)\<rparr>))"

section \<open>The handlers\<close>

text \<open>Each handler below is the function under its \<open>api_ok\<close> decorator; the route is the
  handler passed to \<open>api_ok\<close>. Every handler calls \<open>connect_hana()\<close> with the defaults
  \<open>retries=3\<close> and \<open>backoff=1.0\<close>. The bodies of the 400 responses hold literal strings
  only, so that their \<open>jsonify\<close> does not raise.\<close>

definition product_json :: "product \<Rightarrow> json" where
  "product_json r =
     JObj [(''product_id'', JInt (PRODUCT_ID r)), (''name'', NAME r),
           (''description'', DESCRIPTION r)]"

definition list_products :: "runtime \<Rightarrow> world \<Rightarrow> response outcome" where
  "list_products rt =
     seq (connect_hana rt 3 1) (\<lambda>conn.
     seq (db_call rt OpCursor) (\<lambda>u.
     seq (db_call rt (OpExecute 0)) (\<lambda>u.
     seq (fetchall rt) (\<lambda>rows.
     seq (db_call rt OpCursorClose) (\<lambda>u.
     seq (conn_close rt conn) (\<lambda>u.
     seq (db_call rt OpJsonify) (\<lambda>u.
     ret (JObj [(''products'', JArr (map product_json rows))], 200))))))))"

definition insert_product :: "runtime \<Rightarrow> json option \<Rightarrow> world \<Rightarrow> response outcome" where
  "insert_product rt body =
     seq (get_json body) (\<lambda>payload.
     seq (payload_get payload ''name'' JNull) (\<lambda>nm.
     seq (payload_get payload ''description'' (JStr [])) (\<lambda>descr.
     if truthy nm then
       seq (connect_hana rt 3 1) (\<lambda>conn.
       seq (db_call rt OpCursor) (\<lambda>u.
       seq (db_call rt (OpExecute 0)) (\<lambda>u.
       seq (fetchone rt) (\<lambda>r.
       let max_id = (case r of Some (Some m) \<Rightarrow> m | _ \<Rightarrow> 0);
           new_id = max_id + 1
       in
       seq (execute_insert rt 1
              \<lparr>PRODUCT_ID = new_id, NAME = nm, DESCRIPTION = descr, VECTOR = JNull\<rparr>) (\<lambda>u.
       seq (db_call rt OpCommit) (\<lambda>u.
       seq (db_call rt OpCursorClose) (\<lambda>u.
       seq (conn_close rt conn) (\<lambda>u.
       seq (db_call rt OpJsonify) (\<lambda>u.
       ret (JObj [(''status'', JStr ''ok''), (''product_id'', JInt new_id)], 201))))))))))
     else ret (JObj [(''error'', JStr ''name_required'')], 400))))"

definition update_product :: "runtime \<Rightarrow> string \<Rightarrow> json option \<Rightarrow> world \<Rightarrow> response outcome" where
  "update_product rt nm body =
     seq (get_json body) (\<lambda>payload.
     seq (payload_get payload ''description'' JNull) (\<lambda>descr.
     if descr = JNull then ret (JObj [(''error'', JStr ''description_required'')], 400)
     else
       seq (connect_hana rt 3 1) (\<lambda>conn.
       seq (db_call rt OpCursor) (\<lambda>u.
       seq (execute_update rt 0 descr nm) (\<lambda>rows.
       seq (db_call rt OpCommit) (\<lambda>u.
       seq (db_call rt OpCursorClose) (\<lambda>u.
       seq (conn_close rt conn) (\<lambda>u.
       seq (db_call rt OpJsonify) (\<lambda>u.
       ret (JObj [(''status'', JStr ''ok''), (''rows_affected'', JInt (int rows))], 200))))))))))"

definition delete_product :: "runtime \<Rightarrow> string \<Rightarrow> world \<Rightarrow> response outcome" where
  "delete_product rt nm =
     seq (connect_hana rt 3 1) (\<lambda>conn.
     seq (db_call rt OpCursor) (\<lambda>u.
     seq (execute_delete rt 0 nm) (\<lambda>rows.
     seq (db_call rt OpCommit) (\<lambda>u.
     seq (db_call rt OpCursorClose) (\<lambda>u.
     seq (conn_close rt conn) (\<lambda>u.
     seq (db_call rt OpJsonify) (\<lambda>u.
     ret (JObj [(''status'', JStr ''ok''), (''rows_affected'', JInt (int rows))], 200))))))))"

definition opt_str_json :: "string option \<Rightarrow> json" where
  "opt_str_json v = (case v of None \<Rightarrow> JNull | Some s \<Rightarrow> JStr s)"

text \<open>
  \<open>tls_test\<close>: the configuration is read first, outside the two \<open>try\<close> blocks; each probe's
  exception is recorded in \<open>out\<close> when it is an instance of Exception.
\<close>

definition tls_test :: "runtime \<Rightarrow> world \<Rightarrow> response outcome" where
  "tls_test rt w =
     (case hana_cfg rt of
        Inl e \<Rightarrow> (Inl e, w)
      | Inr cfg \<Rightarrow>
          (let host = address cfg; p = port cfg;
               out = [(''host'', opt_str_json host), (''port'', JInt p)]
           in
           case (case tcp_probe rt host p of
                   None \<Rightarrow> Inr (out @ [(''tcp'', JStr ''ok'')])
                 | Some e \<Rightarrow>
                     if isinstance_Exception (cls e)
                     then Inr (out @ [(''tcp_error'', JStr (msg e))]) else Inl e) of
             Inl e \<Rightarrow> (Inl e, w)
           | Inr out1 \<Rightarrow>
               (case tls_probe rt host p of
                  Inr cipher \<Rightarrow> (Inr (JObj (out1 @ [(''tls_cipher'', cipher)]), 200), w)
                | Inl e \<Rightarrow>
                    if isinstance_Exception (cls e)
                    then (Inr (JObj (out1 @ [(''tls_error'', JStr (msg e))]), 200), w)
                    else (Inl e, w))))"

text \<open>\<open>health\<close>, the one route without the decorator.\<close>

definition health :: "runtime \<Rightarrow> response" where
  "health rt =
     (JObj [(''status'', JStr ''ok''),
            (''hdbcli_installed'', JBool (if dbapi_is_None rt then False else True)),
            (''hana_cfg_present'',
               JBool (if py_not (environ rt ''HANA_ADDRESS'') then False else True))], 200)"

text \<open>The number of times \<open>conn.close()\<close> returned on the session \<open>c\<close>.\<close>

definition times_closed :: "world \<Rightarrow> nat \<Rightarrow> nat" where
  "times_closed w c = count_list (close_log w) c"

text \<open>The kinds of error that \<open>connect_hana\<close> raises itself, by the \<open>raise\<close> statement that
  builds them (lines 28, 31 and 45).\<close>

definition is_configuration_error :: "exc \<Rightarrow> bool" where
  "is_configuration_error e =
     (cls e = RuntimeError \<and> (msg e = msg_no_driver \<or> msg e = msg_cfg_missing))"

definition is_connection_error :: "runtime \<Rightarrow> int \<Rightarrow> exc \<Rightarrow> exc \<Rightarrow> bool" where
  "is_connection_error rt retries last_e e =
     (cls e = RuntimeError \<and> msg e = msg_unable rt retries last_e)"

section \<open>Example deployments\<close>

text \<open>Concrete collaborators on which the theorems below are instantiated.\<close>

definition example_environ :: "string \<Rightarrow> string option" where
  "example_environ =
     map_of [(''HANA_ADDRESS'', ''hana.example''), (''HANA_USER'', ''app''),
             (''HANA_PASSWORD'', ''secret'')]"

definition refused :: exc where
  "refused = Exc (ExceptionSubclass ''hdbcli.dbapi.Error'') ''connection refused''"

text \<open>A deployment in which every dial and every call on the session succeeds.\<close>

definition example_runtime :: runtime where
  "example_runtime =
     \<lparr> dbapi_is_None = False, environ = example_environ,
       dial = (\<lambda>cfg n. None), db_fault = (\<lambda>op. None), stack_text = (\<lambda>e. []),
       tcp_probe = (\<lambda>h p. None), tls_probe = (\<lambda>h p. Inr (JArr [])) \<rparr>"

definition always_refused :: runtime where
  "always_refused = example_runtime\<lparr>dial := (\<lambda>cfg n. Some refused)\<rparr>"

definition refused_twice :: runtime where
  "refused_twice = example_runtime\<lparr>dial := (\<lambda>cfg n. if n < 2 then Some refused else None)\<rparr>"

definition no_password :: runtime where
  "no_password = always_refused\<lparr>environ := example_environ(''HANA_PASSWORD'' := None)\<rparr>"

definition world0 :: world where
  "world0 = \<lparr> dial_calls = 0, sleep_log = [], close_log = [], table = [] \<rparr>"

text \<open>An exception that is neither of the errors of \<open>connect_hana\<close>, and a handler that
  raises a given exception.\<close>

definition recursion_error :: exc where
  "recursion_error =
     Exc (RuntimeErrorSubclass ''RecursionError'') ''maximum recursion depth exceeded''"

definition raising :: "exc \<Rightarrow> world \<Rightarrow> response outcome" where
  "raising e w = (Inl e, w)"

text \<open>The calls each handler makes between \<open>connect_hana()\<close> and the return of
  \<open>conn.close()\<close>, in order.\<close>

definition list_ops :: "db_op list" where
  "list_ops = [OpCursor, OpExecute 0, OpFetch, OpCursorClose, OpConnClose]"

definition insert_ops :: "db_op list" where
  "insert_ops =
     [OpCursor, OpExecute 0, OpFetch, OpExecute 1, OpCommit, OpCursorClose, OpConnClose]"

definition update_ops :: "db_op list" where
  "update_ops = [OpCursor, OpExecute 0, OpCommit, OpCursorClose, OpConnClose]"

text \<open>
  What a handler that started in the world \<open>w\<close> and was given the session \<open>conn\<close> by
  \<open>connect_hana\<close> has done with that session, read off its outcome. \<open>ops\<close> are its calls
  up to the return of \<open>conn.close()\<close>. When one of them raises, the handler raises and no
  \<open>conn.close()\<close> has returned. When none of them raises, exactly one \<open>conn.close()\<close> has
  returned, and it was on \<open>conn\<close>; the handler then returns a response, or raises the
  exception of building it.
\<close>

definition closes_session ::
  "runtime \<Rightarrow> db_op list \<Rightarrow> world \<Rightarrow> nat \<Rightarrow> response outcome \<Rightarrow> bool" where
  "closes_session rt ops w conn out =
     (case out of
        (res, w') \<Rightarrow>
          if list_ex (\<lambda>op. db_fault rt op \<noteq> None) ops
          then close_log w' = close_log w \<and> (case res of Inl e \<Rightarrow> True | Inr r \<Rightarrow> False)
          else close_log w' = close_log w @ [conn] \<and>
               (case db_fault rt OpJsonify of
                  Some e \<Rightarrow> res = Inl e
                | None \<Rightarrow> (case res of Inl e \<Rightarrow> False | Inr r \<Rightarrow> True)))"

text \<open>A deployment in which the dial is refused twice and building the response raises.\<close>

definition jsonify_fails :: runtime where
  "jsonify_fails =
     refused_twice\<lparr>db_fault :=
       (\<lambda>op. if op = OpJsonify
             then Some (Exc (ExceptionSubclass ''TypeError'')
                          ''Object of type LOB is not JSON serializable'')
             else None)\<rparr>"

text \<open>A deployment in which the first \<open>execute\<close> of a handler raises.\<close>

definition execute_fails :: runtime where
  "execute_fails =
     example_runtime\<lparr>db_fault :=
       (\<lambda>op. if op = OpExecute 0
             then Some (Exc (ExceptionSubclass ''hdbcli.dbapi.ProgrammingError'')
                          ''invalid table name'')
             else None)\<rparr>"

text \<open>A table whose largest identifier is 5 and in which two rows are named Widget.\<close>

definition five_products :: world where
  "five_products =
     world0\<lparr>table :=
       [\<lparr>PRODUCT_ID = 5, NAME = JStr ''Gadget'', DESCRIPTION = JStr ''old'', VECTOR = JNull\<rparr>,
        \<lparr>PRODUCT_ID = 2, NAME = JStr ''Widget'', DESCRIPTION = JStr ''old'', VECTOR = JNull\<rparr>,
        \<lparr>PRODUCT_ID = 3, NAME = JStr ''Widget'', DESCRIPTION = JStr ''older'', VECTOR = JNull\<rparr>]\<rparr>"

text \<open>A deployment whose HANA_PORT is not a number.\<close>

definition bad_port :: runtime where
  "bad_port = example_runtime\<lparr>environ := example_environ(''HANA_PORT'' \<mapsto> ''https'')\<rparr>"

text \<open>The response of the second \<open>except\<close> clause of \<open>api_ok\<close> for the exception \<open>e\<close>.\<close>

definition internal_error :: "runtime \<Rightarrow> exc \<Rightarrow> response" where
  "internal_error rt e =
     (JObj [(''error'', JStr ''internal''), (''message'', JStr (msg e)),
            (''trace'', JStr (format_exception rt e))], 500)"

text \<open>The ValueError that \<open>int\<close> raises on the string \<open>s\<close>.\<close>

definition port_error :: "string \<Rightarrow> exc" where
  "port_error s = Exc ValueError (''invalid literal for int() with base 10: '' @ repr_str s)"

section \<open>Facts about the definitions\<close>

lemma upto_1_3: "[1..3] = [1, 2, (3::int)]"
  by (simp add: upto.simps)

lemma str_int_3: "str_int 3 = ''3''"
  by (simp add: str_int_def str_nat.simps digit_char_def)

lemma example_cfg:
  "hana_cfg example_runtime =
     Inr \<lparr> address = Some ''hana.example'', port = 443, user = Some ''app'',
           password = Some ''secret'',
           encrypt = flag_set ''true'', sslValidateCertificate = flag_set ''false'' \<rparr>"
  by (simp add: hana_cfg_def port_of_environ_def example_runtime_def example_environ_def
      environ_get_def)

lemma always_refused_cfg: "hana_cfg always_refused = hana_cfg example_runtime"
  by (simp add: hana_cfg_def port_of_environ_def always_refused_def environ_get_def
      example_runtime_def example_environ_def)

lemma refused_twice_cfg: "hana_cfg refused_twice = hana_cfg example_runtime"
  by (simp add: hana_cfg_def port_of_environ_def refused_twice_def environ_get_def
      example_runtime_def example_environ_def)

lemma always_refused_simps:
  "dbapi_is_None always_refused = False"
  "dial always_refused cfg n = Some refused"
  "isinstance_Exception (cls refused)"
  by (simp_all add: always_refused_def example_runtime_def refused_def)

lemma refused_twice_simps:
  "dbapi_is_None refused_twice = False"
  "dial refused_twice cfg n = (if n < 2 then Some refused else None)"
  by (simp_all add: refused_twice_def example_runtime_def)

section \<open>The connection manager\<close>

text \<open>
  Claim C1, as the code has it. With a usable configuration, a non-negative base delay and
  three dial attempts that each raise an instance of Exception, \<open>connect_hana\<close> with
  \<open>retries = 3\<close> makes exactly three dial attempts and sleeps exactly three times, after
  every failed attempt and so also after the last one, with the delays \<open>backoff * 1\<close>,
  \<open>backoff * 2\<close> and \<open>backoff * 3\<close> in that order. It then raises a RuntimeError whose
  message carries the attempt count 3, the text of the last underlying error and the
  formatted traceback of that error.
\<close>

theorem connect_hana_all_fail:
  assumes "dbapi_is_None rt = False" and "hana_cfg rt = Inr cfg"
    and "py_not (address cfg) = False" and "py_not (user cfg) = False"
    and "py_not (password cfg) = False"
    and "dial rt cfg (dial_calls w) = Some e1" and "isinstance_Exception (cls e1)"
    and "dial rt cfg (dial_calls w + 1) = Some e2" and "isinstance_Exception (cls e2)"
    and "dial rt cfg (dial_calls w + 2) = Some e3" and "isinstance_Exception (cls e3)"
    and "0 \<le> backoff"
  shows "connect_hana rt 3 backoff w =
     (Inl (Exc RuntimeError
        (''Unable to connect to HANA after 3 attempts. Last error: '' @ msg e3 @
         ''\<newline>Traceback:\<newline>'' @ format_exception rt e3)),
      w\<lparr>dial_calls := dial_calls w + 3,
        sleep_log := sleep_log w @ [backoff * 1, backoff * 2, backoff * 3]\<rparr>)"
  using assms
  by (simp add: connect_hana_def upto_1_3 py_sleep_def Let_def msg_unable_def str_int_3)

text \<open>The theorem at the deployment whose dial is always refused, with the default delay.\<close>

theorem connect_hana_all_fail_witness:
  "connect_hana always_refused 3 1 world0 =
     (Inl (Exc RuntimeError
        (''Unable to connect to HANA after 3 attempts. Last error: connection refused'' @
         ''\<newline>Traceback:\<newline>'' @ format_exception always_refused refused)),
      \<lparr> dial_calls = 3, sleep_log = [1, 2, 3], close_log = [], table = [] \<rparr>)"
  using connect_hana_all_fail [of always_refused _ world0 refused refused refused 1,
      OF _ trans [OF always_refused_cfg example_cfg]]
  by (simp add: always_refused_simps py_not_def world0_def refused_def)

text \<open>
  Claim C1 as stated fails: with every dial refused, the default call sleeps three times,
  not two; the third sleep follows the final failed attempt.
\<close>

theorem sleeps_twice_counterexample:
  "length (sleep_log (snd (connect_hana always_refused 3 1 world0))) \<noteq> 2 \<and>
   sleep_log (snd (connect_hana always_refused 3 1 world0)) = [1, 2, 3] \<and>
   dial_calls (snd (connect_hana always_refused 3 1 world0)) = 3"
  by (simp add: connect_hana_def always_refused_cfg example_cfg py_not_def upto_1_3
      py_sleep_def Let_def always_refused_simps world0_def)

text \<open>
  Claim C2. For \<open>k\<close> in 0, 1, 2: when the next \<open>k\<close> dial attempts each raise an instance of
  Exception and the one after them succeeds, \<open>connect_hana\<close> with \<open>retries = 3\<close> returns the
  session opened by attempt \<open>k + 1\<close>, has made exactly \<open>k + 1\<close> attempts, and has slept
  exactly \<open>k\<close> times, with the delays \<open>backoff * 1\<close>, ..., \<open>backoff * k\<close> in that order.
  The base delay is a duration, hence not negative.
\<close>

theorem connect_hana_succeeds_after:
  assumes "dbapi_is_None rt = False" and "hana_cfg rt = Inr cfg"
    and "py_not (address cfg) = False" and "py_not (user cfg) = False"
    and "py_not (password cfg) = False"
    and "k \<le> 2"
    and "\<forall>j<k. \<exists>e. dial rt cfg (dial_calls w + j) = Some e \<and> isinstance_Exception (cls e)"
    and "dial rt cfg (dial_calls w + k) = None"
    and "0 \<le> backoff"
  shows "connect_hana rt 3 backoff w =
     (Inr (dial_calls w + k),
      w\<lparr>dial_calls := dial_calls w + k + 1,
        sleep_log := sleep_log w @ map (\<lambda>i. backoff * real i) [1..<k + 1]\<rparr>)"
proof -
  consider "k = 0" | "k = 1" | "k = 2" using assms(6) by linarith
  then show ?thesis
  proof cases
    case 1
    with assms show ?thesis
      by (simp add: connect_hana_def upto_1_3 Let_def)
  next
    case 2
    with assms(7) obtain e1 where "dial rt cfg (dial_calls w) = Some e1"
      "isinstance_Exception (cls e1)" by auto
    with 2 assms show ?thesis
      by (simp add: connect_hana_def upto_1_3 py_sleep_def Let_def)
  next
    case 3
    with assms(7) have "\<exists>e. dial rt cfg (dial_calls w + 0) = Some e \<and> isinstance_Exception (cls e)"
      "\<exists>e. dial rt cfg (dial_calls w + 1) = Some e \<and> isinstance_Exception (cls e)"
      by (metis zero_less_numeral, metis one_less_numeral_iff semiring_norm(76))
    then obtain e1 e2 where "dial rt cfg (dial_calls w) = Some e1"
      "isinstance_Exception (cls e1)" "dial rt cfg (dial_calls w + 1) = Some e2"
      "isinstance_Exception (cls e2)" by auto
    with 3 assms show ?thesis
      by (simp add: connect_hana_def upto_1_3 py_sleep_def Let_def upt_rec numeral_2_eq_2)
  qed
qed

text \<open>The theorem at \<open>k = 2\<close>: two refusals, then a session, with the default delay.\<close>

theorem connect_hana_succeeds_after_witness:
  "connect_hana refused_twice 3 1 world0 =
     (Inr 2, \<lparr> dial_calls = 3, sleep_log = [1, 2], close_log = [], table = [] \<rparr>)"
  using connect_hana_succeeds_after [of refused_twice _ 2 world0 1,
      OF _ trans [OF refused_twice_cfg example_cfg]]
  by (simp add: refused_twice_simps always_refused_simps py_not_def world0_def upt_rec)

text \<open>
  Claim C3. For every configuration that \<open>hana_cfg\<close> resolves and in which the address, the
  user or the password is \<open>None\<close> or empty, \<open>connect_hana\<close> raises a configuration error
  (the RuntimeError of line 31, or that of line 28 when the driver is missing as well) and
  leaves the world as it was: no dial attempt and no sleep, whatever \<open>retries\<close> and
  \<open>backoff\<close> are.
\<close>

theorem connect_hana_missing_config:
  assumes "hana_cfg rt = Inr cfg"
    and "py_not (address cfg) \<or> py_not (user cfg) \<or> py_not (password cfg)"
  shows "\<exists>e. connect_hana rt retries backoff w = (Inl e, w) \<and> is_configuration_error e"
  using assms by (auto simp: connect_hana_def is_configuration_error_def)

text \<open>The theorem at a deployment without HANA_PASSWORD whose dial would be refused.\<close>

theorem connect_hana_missing_config_witness:
  "py_not (environ no_password ''HANA_PASSWORD'') \<and>
   (\<exists>e. connect_hana no_password 3 1 world0 = (Inl e, world0) \<and> is_configuration_error e)"
  using connect_hana_missing_config [of no_password _ 3 1 world0]
  by (simp add: hana_cfg_def port_of_environ_def no_password_def always_refused_def
      example_runtime_def example_environ_def py_not_def)

section \<open>The error envelope and the kinds of error\<close>

lemma no_password_connect:
  "connect_hana no_password retries backoff w = (Inl (Exc RuntimeError msg_cfg_missing), w)"
  by (simp add: connect_hana_def hana_cfg_def port_of_environ_def no_password_def
      always_refused_def example_runtime_def example_environ_def py_not_def)

lemma always_refused_connect:
  "connect_hana always_refused 3 1 world0 =
     (Inl (Exc RuntimeError (msg_unable always_refused 3 refused)),
      \<lparr> dial_calls = 3, sleep_log = [1, 2, 3], close_log = [], table = [] \<rparr>)"
  by (simp add: connect_hana_def always_refused_cfg example_cfg py_not_def upto_1_3
      py_sleep_def Let_def always_refused_simps world0_def)

lemma connect_loop_raises:
  assumes "connect_loop rt cfg retries backoff is last_e w = (Inl e, w')"
    and "last_e \<noteq> None \<or> is \<noteq> []" and "\<forall>i\<in>set is. 0 \<le> backoff * real_of_int i"
  shows "(\<exists>l. is_connection_error rt retries l e) \<or> isinstance_Exception (cls e) = False"
  using assms
proof (induction "is" arbitrary: last_e w)
  case Nil
  then show ?case by (auto simp: is_connection_error_def split: option.splits)
next
  case (Cons i "is")
  then show ?case
    by (auto simp: Let_def py_sleep_def split: option.splits if_splits)
qed

text \<open>
  Claim C4, as the code has it. When the wrapped handler raises \<open>e\<close>: if \<open>e\<close> is an
  instance of RuntimeError (every configuration error and connection error of
  \<open>connect_hana\<close> is one, and so is any other RuntimeError or instance of a subclass), the
  response is 502 with the body \<open>{error: "connection_error", message: str(e)}\<close>; if \<open>e\<close> is
  any other instance of Exception, the response is 500 with the body
  \<open>{error: "internal", message: str(e), trace: ...}\<close>, whose trace is not empty; no instance
  of Exception leaves the wrapper, and an exception that is not an instance of Exception
  does.
\<close>

theorem api_ok_envelope:
  assumes "fn w = (Inl e, w')"
  shows "api_ok rt fn w =
     (if isinstance_RuntimeError (cls e) then
        (Inr (JObj [(''error'', JStr ''connection_error''), (''message'', JStr (msg e))],
              502), w')
      else if isinstance_Exception (cls e) then
        (Inr (JObj [(''error'', JStr ''internal''), (''message'', JStr (msg e)),
                    (''trace'', JStr (format_exception rt e))], 500), w')
      else (Inl e, w')) \<and>
     format_exception rt e \<noteq> [] \<and>
     (is_configuration_error e \<longrightarrow> isinstance_RuntimeError (cls e)) \<and>
     (is_connection_error rt retries last_e e \<longrightarrow> isinstance_RuntimeError (cls e)) \<and>
     (isinstance_Exception (cls e) \<longrightarrow> (\<exists>r. api_ok rt fn w = (Inr r, w')))"
  using assms
  by (simp add: api_ok_def format_exception_def is_configuration_error_def
      is_connection_error_def)

text \<open>The theorem at GET /products of the deployment without HANA_PASSWORD.\<close>

theorem api_ok_envelope_witness:
  "api_ok no_password (list_products no_password) world0 =
     (Inr (JObj [(''error'', JStr ''connection_error''),
                 (''message'', JStr msg_cfg_missing)], 502), world0) \<and>
   is_configuration_error (Exc RuntimeError msg_cfg_missing)"
  using api_ok_envelope [of "list_products no_password" world0
      "Exc RuntimeError msg_cfg_missing" world0 no_password 3 refused]
  by (simp add: list_products_def seq_def no_password_connect is_configuration_error_def)

text \<open>
  Claim C4 as stated fails: a RecursionError raised in a handler is neither a
  configuration error nor a connection error, and the response is 502
  \<open>connection_error\<close>, not 500 \<open>internal\<close>.
\<close>

theorem other_exception_502_counterexample:
  "is_configuration_error recursion_error = False \<and>
   is_connection_error example_runtime 3 refused recursion_error = False \<and>
   api_ok example_runtime (raising recursion_error) world0 =
     (Inr (JObj [(''error'', JStr ''connection_error''),
                 (''message'', JStr ''maximum recursion depth exceeded'')], 502), world0)"
  by (simp add: api_ok_def raising_def recursion_error_def is_configuration_error_def
      is_connection_error_def)

text \<open>
  Claim C5, as the code has it. The error raised after the retries are exhausted and the
  errors raised for a missing driver or missing configuration fields have the same class,
  RuntimeError, and differ in their message only; the messages of the three are pairwise
  different. With \<open>retries = 3\<close> and a non-negative base delay, every error that
  \<open>connect_hana\<close> raises is one of these RuntimeErrors, or the error of \<open>hana_cfg\<close>
  (the ValueError of the port, of another class), or an exception of the dial that is not
  an instance of Exception.
\<close>

theorem connection_error_kind:
  "(is_connection_error rt retries last_e e \<and> is_configuration_error c \<longrightarrow>
      cls e = RuntimeError \<and> cls c = RuntimeError \<and> msg e \<noteq> msg c) \<and>
   msg_no_driver \<noteq> msg_cfg_missing \<and>
   (connect_hana rt 3 backoff w = (Inl x, w') \<and> 0 \<le> backoff \<longrightarrow>
      is_configuration_error x \<or> (\<exists>l. is_connection_error rt 3 l x) \<or>
      hana_cfg rt = Inl x \<or> isinstance_Exception (cls x) = False)"
proof (intro conjI impI)
  assume "is_connection_error rt retries last_e e \<and> is_configuration_error c"
  then show "cls e = RuntimeError" "cls c = RuntimeError" "msg e \<noteq> msg c"
    by (auto simp: is_connection_error_def is_configuration_error_def msg_unable_def
        msg_no_driver_def msg_cfg_missing_def)
next
  show "msg_no_driver \<noteq> msg_cfg_missing"
    by (simp add: msg_no_driver_def msg_cfg_missing_def)
next
  assume a: "connect_hana rt 3 backoff w = (Inl x, w') \<and> 0 \<le> backoff"
  show "is_configuration_error x \<or> (\<exists>l. is_connection_error rt 3 l x) \<or>
      hana_cfg rt = Inl x \<or> isinstance_Exception (cls x) = False"
  proof (cases "dbapi_is_None rt")
    case True
    with a show ?thesis by (auto simp: connect_hana_def is_configuration_error_def)
  next
    case False
    show ?thesis
    proof (cases "hana_cfg rt")
      case (Inl e)
      with a False show ?thesis by (simp add: connect_hana_def)
    next
      case (Inr cfg)
      show ?thesis
      proof (cases "py_not (address cfg) \<or> py_not (user cfg) \<or> py_not (password cfg)")
        case True
        with a False Inr show ?thesis
          by (auto simp: connect_hana_def is_configuration_error_def)
      next
        case nf: False
        with a False Inr have loop: "connect_loop rt cfg 3 backoff [1..3] None w = (Inl x, w')"
          by (simp add: connect_hana_def)
        have "(\<exists>l. is_connection_error rt 3 l x) \<or> isinstance_Exception (cls x) = False"
          using a by (intro connect_loop_raises [OF loop]) (simp_all add: upto_1_3)
        then show ?thesis by blast
      qed
    qed
  qed
qed

text \<open>The theorem at the error of the always-refused dial and the error for the missing
  password.\<close>

theorem connection_error_kind_witness:
  "is_connection_error always_refused 3 refused
     (Exc RuntimeError (msg_unable always_refused 3 refused)) \<and>
   is_configuration_error (Exc RuntimeError msg_cfg_missing) \<and>
   msg_unable always_refused 3 refused \<noteq> msg_cfg_missing"
  using connection_error_kind [of always_refused 3 refused
      "Exc RuntimeError (msg_unable always_refused 3 refused)"
      "Exc RuntimeError msg_cfg_missing" 1 world0
      "Exc RuntimeError (msg_unable always_refused 3 refused)"
      "\<lparr> dial_calls = 3, sleep_log = [1, 2, 3], close_log = [], table = [] \<rparr>"]
  by (simp add: is_connection_error_def is_configuration_error_def always_refused_connect)

text \<open>
  Claim C5 as stated fails: the error after three refused dials and the error for the
  missing password are both of class RuntimeError.
\<close>

theorem same_kind_counterexample:
  "map_sum cls id (fst (connect_hana always_refused 3 1 world0)) = Inl RuntimeError \<and>
   map_sum cls id (fst (connect_hana no_password 3 1 world0)) = Inl RuntimeError"
  by (simp add: always_refused_connect no_password_connect)

section \<open>Sessions\<close>

lemma connect_loop_frame:
  "connect_loop rt cfg retries backoff is last_e w = (r, w') \<Longrightarrow>
   close_log w' = close_log w \<and> table w' = table w \<and>
   (case r of Inl e \<Rightarrow> True | Inr c \<Rightarrow> dial_calls w \<le> c \<and> c < dial_calls w')"
proof (induction "is" arbitrary: last_e w)
  case Nil
  then show ?case by (auto split: option.splits)
next
  case (Cons i "is")
  show ?case
  proof (cases "dial rt cfg (dial_calls w)")
    case None
    with Cons.prems show ?thesis by (auto simp: Let_def)
  next
    case (Some e)
    show ?thesis
    proof (cases "isinstance_Exception (cls e) \<and> 0 \<le> backoff * real_of_int i")
      case True
      with Some Cons.prems have
        "connect_loop rt cfg retries backoff is (Some e)
           (w\<lparr>dial_calls := dial_calls w + 1,
              sleep_log := sleep_log w @ [backoff * real_of_int i]\<rparr>) = (r, w')"
        by (simp add: Let_def py_sleep_def)
      from Cons.IH [OF this] show ?thesis by (auto split: sum.splits)
    next
      case False
      with Some Cons.prems show ?thesis
        by (auto simp: Let_def py_sleep_def split: if_splits)
    qed
  qed
qed

lemma connect_hana_frame:
  "connect_hana rt retries backoff w = (r, w') \<Longrightarrow>
   close_log w' = close_log w \<and> table w' = table w \<and>
   (case r of Inl e \<Rightarrow> True | Inr c \<Rightarrow> dial_calls w \<le> c \<and> c < dial_calls w')"
  by (auto simp: connect_hana_def dest: connect_loop_frame split: if_splits sum.splits)

lemma example_runtime_simps:
  "dbapi_is_None example_runtime = False"
  "dial example_runtime cfg n = None"
  "db_fault example_runtime op = None"
  by (simp_all add: example_runtime_def)

lemma execute_fails_simps:
  "dbapi_is_None execute_fails = False"
  "dial execute_fails cfg n = None"
  "db_fault execute_fails op =
     (if op = OpExecute 0
      then Some (Exc (ExceptionSubclass ''hdbcli.dbapi.ProgrammingError'') ''invalid table name'')
      else None)"
  by (simp_all add: execute_fails_def example_runtime_def)

lemma example_connect:
  "connect_hana example_runtime 3 1 w = (Inr (dial_calls w), w\<lparr>dial_calls := dial_calls w + 1\<rparr>)"
  by (simp add: connect_hana_def example_cfg py_not_def upto_1_3 Let_def example_runtime_simps)

lemma execute_fails_connect:
  "connect_hana execute_fails 3 1 w = (Inr (dial_calls w), w\<lparr>dial_calls := dial_calls w + 1\<rparr>)"
proof -
  have "hana_cfg execute_fails = hana_cfg example_runtime"
    by (simp add: hana_cfg_def port_of_environ_def execute_fails_def environ_get_def
      example_runtime_def example_environ_def)
  then show ?thesis
    by (simp add: connect_hana_def example_cfg py_not_def upto_1_3 Let_def execute_fails_simps)
qed

lemma jsonify_fails_cfg: "hana_cfg jsonify_fails = hana_cfg example_runtime"
  by (simp add: hana_cfg_def port_of_environ_def jsonify_fails_def refused_twice_def
      environ_get_def example_runtime_def example_environ_def)

lemma jsonify_fails_simps:
  "dbapi_is_None jsonify_fails = False"
  "dial jsonify_fails cfg n = (if n < 2 then Some refused else None)"
  "db_fault jsonify_fails op =
     (if op = OpJsonify
      then Some (Exc (ExceptionSubclass ''TypeError'')
                   ''Object of type LOB is not JSON serializable'')
      else None)"
  "db_fault refused_twice op = None"
  by (simp_all add: jsonify_fails_def refused_twice_def example_runtime_def)

lemma refused_twice_connect:
  "connect_hana refused_twice 3 1 world0 =
     (Inr 2, \<lparr> dial_calls = 3, sleep_log = [1, 2], close_log = [], table = [] \<rparr>)"
  by (simp add: connect_hana_def refused_twice_cfg example_cfg py_not_def upto_1_3
      py_sleep_def Let_def refused_twice_simps always_refused_simps world0_def)

lemma jsonify_fails_connect:
  "connect_hana jsonify_fails 3 1 world0 =
     (Inr 2, \<lparr> dial_calls = 3, sleep_log = [1, 2], close_log = [], table = [] \<rparr>)"
  by (simp add: connect_hana_def jsonify_fails_cfg example_cfg py_not_def upto_1_3
      py_sleep_def Let_def jsonify_fails_simps always_refused_simps world0_def)

lemma closes_list_products:
  assumes "connect_hana rt 3 1 w = (Inr conn, w1)"
  shows "closes_session rt list_ops w conn (list_products rt w)"
  using connect_hana_frame [OF assms] assms
  by (auto simp: closes_session_def list_ops_def list_products_def seq_def ret_def db_call_def
      fetchall_def conn_close_def split: option.splits)

lemma closes_delete_product:
  assumes "connect_hana rt 3 1 w = (Inr conn, w1)"
  shows "closes_session rt update_ops w conn (delete_product rt nm w)"
  using connect_hana_frame [OF assms] assms
  by (auto simp: closes_session_def update_ops_def delete_product_def seq_def ret_def
      db_call_def execute_delete_def conn_close_def split: option.splits)

lemma closes_update_product:
  assumes "connect_hana rt 3 1 w = (Inr conn, w1)"
    and "dict_get kvs ''description'' JNull \<noteq> JNull"
  shows "closes_session rt update_ops w conn (update_product rt nm (Some (JObj kvs)) w)"
  using connect_hana_frame [OF assms(1)] assms
  by (auto simp: closes_session_def update_ops_def update_product_def seq_def ret_def
      get_json_def db_call_def execute_update_def conn_close_def split: option.splits)

lemma closes_insert_product:
  assumes "connect_hana rt 3 1 w = (Inr conn, w1)"
    and "truthy (dict_get kvs ''name'' JNull)"
  shows "closes_session rt insert_ops w conn (insert_product rt (Some (JObj kvs)) w)"
  using connect_hana_frame [OF assms(1)] assms
  by (auto simp: closes_session_def insert_ops_def insert_product_def seq_def ret_def
      get_json_def db_call_def fetchone_def execute_insert_def conn_close_def Let_def
      split: option.splits)

text \<open>
  Claim C6, as the code has it. No handler has a \<open>try\<close>/\<open>finally\<close> or a \<open>with\<close> block:
  \<open>conn.close()\<close> is the last statement before the response is built. Let \<open>connect_hana\<close>
  return the session \<open>conn\<close> to a handler. When no call of the handler up to and including
  \<open>conn.close()\<close> raises, the handler closes exactly once, and the session it closes is
  \<open>conn\<close>; this holds when it returns its response and also when building the response
  from the rows raises, because the response is built after \<open>conn.close()\<close>. When a call on
  the session or its cursor raises (the SQL execution, the fetch, the commit, a close), the
  handler raises and has closed nothing. A request rejected with 400 (the business error)
  returns with the world as it was: it has dialled no session.
\<close>

theorem handlers_close_session:
  assumes "connect_hana rt 3 1 w = (Inr conn, w1)"
  shows "closes_session rt list_ops w conn (list_products rt w) \<and>
    closes_session rt update_ops w conn (delete_product rt nm w) \<and>
    (truthy (dict_get kvs ''name'' JNull) \<longrightarrow>
       closes_session rt insert_ops w conn (insert_product rt (Some (JObj kvs)) w)) \<and>
    (dict_get kvs ''description'' JNull \<noteq> JNull \<longrightarrow>
       closes_session rt update_ops w conn (update_product rt nm (Some (JObj kvs)) w)) \<and>
    (truthy (dict_get kvs ''name'' JNull) = False \<longrightarrow>
       insert_product rt (Some (JObj kvs)) w =
         (Inr (JObj [(''error'', JStr ''name_required'')], 400), w)) \<and>
    (dict_get kvs ''description'' JNull = JNull \<longrightarrow>
       update_product rt nm (Some (JObj kvs)) w =
         (Inr (JObj [(''error'', JStr ''description_required'')], 400), w))"
proof (intro conjI impI)
  show "closes_session rt list_ops w conn (list_products rt w)"
    by (rule closes_list_products [OF assms])
  show "closes_session rt update_ops w conn (delete_product rt nm w)"
    by (rule closes_delete_product [OF assms])
  show "closes_session rt insert_ops w conn (insert_product rt (Some (JObj kvs)) w)"
    if "truthy (dict_get kvs ''name'' JNull)"
    by (rule closes_insert_product [OF assms that])
  show "closes_session rt update_ops w conn (update_product rt nm (Some (JObj kvs)) w)"
    if "dict_get kvs ''description'' JNull \<noteq> JNull"
    by (rule closes_update_product [OF assms that])
  show "insert_product rt (Some (JObj kvs)) w =
      (Inr (JObj [(''error'', JStr ''name_required'')], 400), w)"
    if "truthy (dict_get kvs ''name'' JNull) = False"
    using that by (simp add: insert_product_def seq_def ret_def get_json_def)
  show "update_product rt nm (Some (JObj kvs)) w =
      (Inr (JObj [(''error'', JStr ''description_required'')], 400), w)"
    if "dict_get kvs ''description'' JNull = JNull"
    using that by (simp add: update_product_def seq_def ret_def get_json_def)
qed

text \<open>
  With a dial refused twice the session of the request is the third one dialled, with the
  index 2, and it is the one closed, also when building the response raises. A request
  without \<open>name\<close> or \<open>description\<close> gets its 400 with the world unchanged.
\<close>

theorem handlers_close_session_witness:
  "connect_hana refused_twice 3 1 world0 =
     (Inr 2, \<lparr> dial_calls = 3, sleep_log = [1, 2], close_log = [], table = [] \<rparr>) \<and>
   closes_session refused_twice list_ops world0 2 (list_products refused_twice world0) \<and>
   list_products refused_twice world0 =
     (Inr (JObj [(''products'', JArr [])], 200),
      \<lparr> dial_calls = 3, sleep_log = [1, 2], close_log = [2], table = [] \<rparr>) \<and>
   closes_session refused_twice insert_ops world0 2
     (insert_product refused_twice
        (Some (JObj [(''name'', JStr ''Widget''), (''description'', JStr ''A widget'')])) world0) \<and>
   closes_session refused_twice update_ops world0 2
     (update_product refused_twice ''Widget''
        (Some (JObj [(''name'', JStr ''Widget''), (''description'', JStr ''A widget'')])) world0) \<and>
   closes_session jsonify_fails list_ops world0 2 (list_products jsonify_fails world0) \<and>
   list_products jsonify_fails world0 =
     (Inl (Exc (ExceptionSubclass ''TypeError'') ''Object of type LOB is not JSON serializable''),
      \<lparr> dial_calls = 3, sleep_log = [1, 2], close_log = [2], table = [] \<rparr>) \<and>
   insert_product jsonify_fails (Some (JObj [])) world0 =
     (Inr (JObj [(''error'', JStr ''name_required'')], 400), world0) \<and>
   update_product jsonify_fails ''Widget'' (Some (JObj [])) world0 =
     (Inr (JObj [(''error'', JStr ''description_required'')], 400), world0)"
proof -
  let ?kvs = "[(''name'', JStr ''Widget''), (''description'', JStr ''A widget'')]"
  have payload: "truthy (dict_get ?kvs ''name'' JNull)"
    "dict_get ?kvs ''description'' JNull \<noteq> JNull"
    "truthy (dict_get [] ''name'' JNull) = False"
    "dict_get [] ''description'' JNull = JNull"
    by (simp_all add: dict_get_def)
  have listed: "list_products refused_twice world0 =
     (Inr (JObj [(''products'', JArr [])], 200),
      \<lparr> dial_calls = 3, sleep_log = [1, 2], close_log = [2], table = [] \<rparr>)"
    by (simp add: list_products_def seq_def ret_def refused_twice_connect jsonify_fails_simps
        db_call_def fetchall_def conn_close_def)
  have raised: "list_products jsonify_fails world0 =
     (Inl (Exc (ExceptionSubclass ''TypeError'') ''Object of type LOB is not JSON serializable''),
      \<lparr> dial_calls = 3, sleep_log = [1, 2], close_log = [2], table = [] \<rparr>)"
    by (simp add: list_products_def seq_def ret_def jsonify_fails_connect jsonify_fails_simps
        db_call_def fetchall_def conn_close_def)
  show ?thesis
    using handlers_close_session [OF refused_twice_connect, of "''Widget''" ?kvs]
      handlers_close_session [OF jsonify_fails_connect, of "''Widget''" "[]"]
      payload listed raised refused_twice_connect
    by blast
qed

text \<open>
  Claim C6 as stated fails: when the SELECT of GET /products raises, the session that
  \<open>connect_hana\<close> returned for the request (the index 0) is never closed.
\<close>

theorem session_left_open_counterexample:
  "api_ok execute_fails (list_products execute_fails) world0 =
     (Inr (JObj [(''error'', JStr ''internal''), (''message'', JStr ''invalid table name''),
                 (''trace'', JStr (format_exception execute_fails
                    (Exc (ExceptionSubclass ''hdbcli.dbapi.ProgrammingError'')
                       ''invalid table name'')))], 500),
      \<lparr> dial_calls = 1, sleep_log = [], close_log = [], table = [] \<rparr>) \<and>
   times_closed (snd (api_ok execute_fails (list_products execute_fails) world0)) 0 = 0"
  by (simp add: api_ok_def list_products_def seq_def ret_def execute_fails_connect db_call_def
      execute_fails_simps world0_def times_closed_def)

section \<open>The routes of a product\<close>





text \<open>
  Claim C8, as the code has it. PUT /product/\<open>nm\<close> with a JSON object as body: when the
  \<open>description\<close> key is absent or its value is null, the response is 400
  \<open>{error: "description_required"}\<close> and the world is as before. When \<open>description\<close> has
  any other value, the empty string included, and \<open>connect_hana\<close> returns a session and
  no later call of the handler raises, every row whose NAME equals \<open>nm\<close> gets the description, the
  other rows stay as they were, and the response is 200 with \<open>rows_affected\<close> equal to the
  number of those rows, which may be 0.
\<close>

theorem update_product_route:
  "(dict_get kvs ''description'' JNull = JNull \<longrightarrow>
      api_ok rt (update_product rt nm (Some (JObj kvs))) w =
        (Inr (JObj [(''error'', JStr ''description_required'')], 400), w)) \<and>
   (dict_get kvs ''description'' JNull \<noteq> JNull \<and> connect_hana rt 3 1 w = (Inr conn, w1) \<and>
    (\<forall>op. db_fault rt op = None) \<longrightarrow>
      api_ok rt (update_product rt nm (Some (JObj kvs))) w =
        (Inr (JObj [(''status'', JStr ''ok''),
                    (''rows_affected'',
                     JInt (int (length (filter (\<lambda>r. NAME r = JStr nm) (table w)))))], 200),
         w1\<lparr>table :=
               map (\<lambda>r. if NAME r = JStr nm
                        then r\<lparr>DESCRIPTION := dict_get kvs ''description'' JNull\<rparr> else r)
                 (table w),
             close_log := close_log w @ [conn]\<rparr>))"
proof (intro conjI impI)
  assume "dict_get kvs ''description'' JNull = JNull"
  then show "api_ok rt (update_product rt nm (Some (JObj kvs))) w =
        (Inr (JObj [(''error'', JStr ''description_required'')], 400), w)"
    by (simp add: api_ok_def update_product_def seq_def ret_def get_json_def)
next
  assume a: "dict_get kvs ''description'' JNull \<noteq> JNull \<and>
    connect_hana rt 3 1 w = (Inr conn, w1) \<and> (\<forall>op. db_fault rt op = None)"
  then have c: "connect_hana rt 3 1 w = (Inr conn, w1)" by simp
  from connect_hana_frame [OF c] have f: "close_log w1 = close_log w" "table w1 = table w"
    by simp_all
  from a f show "api_ok rt (update_product rt nm (Some (JObj kvs))) w =
        (Inr (JObj [(''status'', JStr ''ok''),
                    (''rows_affected'',
                     JInt (int (length (filter (\<lambda>r. NAME r = JStr nm) (table w)))))], 200),
         w1\<lparr>table :=
               map (\<lambda>r. if NAME r = JStr nm
                        then r\<lparr>DESCRIPTION := dict_get kvs ''description'' JNull\<rparr> else r)
                 (table w),
             close_log := close_log w @ [conn]\<rparr>)"
    by (simp add: api_ok_def update_product_def seq_def ret_def get_json_def db_call_def
        execute_update_def conn_close_def)
qed

text \<open>The theorem at the body \<open>{"description": ""}\<close>, which updates the two rows named
  Widget, and at the body \<open>{}\<close>.\<close>

theorem update_product_route_witness:
  "api_ok example_runtime
     (update_product example_runtime ''Widget'' (Some (JObj [(''description'', JStr [])])))
     five_products =
     (Inr (JObj [(''status'', JStr ''ok''), (''rows_affected'', JInt 2)], 200),
      five_products\<lparr>dial_calls := 1,
        table :=
          [\<lparr>PRODUCT_ID = 5, NAME = JStr ''Gadget'', DESCRIPTION = JStr ''old'', VECTOR = JNull\<rparr>,
           \<lparr>PRODUCT_ID = 2, NAME = JStr ''Widget'', DESCRIPTION = JStr [], VECTOR = JNull\<rparr>,
           \<lparr>PRODUCT_ID = 3, NAME = JStr ''Widget'', DESCRIPTION = JStr [], VECTOR = JNull\<rparr>],
        close_log := [0]\<rparr>) \<and>
   api_ok example_runtime (update_product example_runtime ''Widget'' (Some (JObj []))) five_products =
     (Inr (JObj [(''error'', JStr ''description_required'')], 400), five_products)"
  using update_product_route [of "[(''description'', JStr [])]" example_runtime "''Widget''"
      five_products 0 "five_products\<lparr>dial_calls := 1\<rparr>"]
    update_product_route [of "[]" example_runtime "''Widget''" five_products 0 five_products]
  by (simp add: dict_get_def example_connect example_runtime_simps five_products_def world0_def)

text \<open>
  Claim C8 as stated fails: with the body \<open>{"description": null}\<close> the key is present, and
  the response is 400, not 200.
\<close>

theorem null_description_counterexample:
  "api_ok example_runtime
     (update_product example_runtime ''Widget'' (Some (JObj [(''description'', JNull)])))
     five_products =
     (Inr (JObj [(''error'', JStr ''description_required'')], 400), five_products)"
  by (simp add: api_ok_def update_product_def seq_def ret_def get_json_def dict_get_def)

text \<open>
  Claim C9. PUT /product/\<open>nm\<close> whose JSON object has the \<open>description\<close> key with the value
  null: the response is 400 \<open>{error: "description_required"}\<close>, and it is the outcome of
  the same request with the key removed from the body.
\<close>

theorem null_description_rejected:
  assumes "map_of (rev kvs) ''description'' = Some JNull"
  shows "api_ok rt (update_product rt nm (Some (JObj kvs))) w =
      (Inr (JObj [(''error'', JStr ''description_required'')], 400), w) \<and>
    api_ok rt (update_product rt nm
        (Some (JObj (filter (\<lambda>kv. fst kv \<noteq> ''description'') kvs)))) w =
      api_ok rt (update_product rt nm (Some (JObj kvs))) w"
proof -
  have "map_of (rev (filter (\<lambda>kv. fst kv \<noteq> ''description'') kvs)) ''description'' = None"
    by (simp add: map_of_eq_None_iff image_iff)
  with assms show ?thesis
    by (simp add: api_ok_def update_product_def seq_def ret_def get_json_def dict_get_def)
qed

text \<open>The theorem at the body \<open>{"description": null, "note": "x"}\<close>.\<close>

theorem null_description_rejected_witness:
  "api_ok example_runtime
     (update_product example_runtime ''Widget''
        (Some (JObj [(''description'', JNull), (''note'', JStr ''x'')])))
     five_products =
     (Inr (JObj [(''error'', JStr ''description_required'')], 400), five_products)"
  using null_description_rejected [of "[(''description'', JNull), (''note'', JStr ''x'')]"
      example_runtime "''Widget''" five_products]
  by simp

section \<open>An invalid port\<close>

lemma py_int_https: "py_int ''https'' = None"
  by (simp add: py_int_def strip_def is_space_def is_digit_def)

text \<open>
  Claim C10. When HANA_PORT is set to a string that \<open>int\<close> rejects, \<open>hana_cfg\<close> raises the
  ValueError of \<open>int\<close>, which is not a configuration error, and every route that reads the
  configuration answers 500 with \<open>{error: "internal", message, trace}\<close>, not 502: GET
  /tls-test always, and, when the driver is loaded, GET /products, DELETE /product/\<open>nm\<close>,
  POST /product with a name and PUT /product/\<open>nm\<close> with a description (without the driver,
  and for a body rejected with 400, the configuration is not read).
\<close>

theorem invalid_port_is_internal:
  assumes "environ rt ''HANA_PORT'' = Some s" and "py_int s = None"
  shows "hana_cfg rt = Inl (port_error s) \<and>
    is_configuration_error (port_error s) = False \<and>
    api_ok rt (tls_test rt) w = (Inr (internal_error rt (port_error s)), w) \<and>
    (dbapi_is_None rt = False \<longrightarrow>
       api_ok rt (list_products rt) w = (Inr (internal_error rt (port_error s)), w) \<and>
       api_ok rt (delete_product rt nm) w = (Inr (internal_error rt (port_error s)), w) \<and>
       (truthy (dict_get kvs ''name'' JNull) \<longrightarrow>
          api_ok rt (insert_product rt (Some (JObj kvs))) w =
            (Inr (internal_error rt (port_error s)), w)) \<and>
       (dict_get kvs ''description'' JNull \<noteq> JNull \<longrightarrow>
          api_ok rt (update_product rt nm (Some (JObj kvs))) w =
            (Inr (internal_error rt (port_error s)), w)))"
proof -
  have cfg: "hana_cfg rt = Inl (port_error s)"
    using assms by (simp add: hana_cfg_def port_of_environ_def port_error_def)
  have conn: "dbapi_is_None rt = False \<Longrightarrow>
      connect_hana rt 3 1 w = (Inl (port_error s), w)"
    using cfg by (simp add: connect_hana_def)
  have cls: "isinstance_RuntimeError (cls (port_error s)) = False"
    "isinstance_Exception (cls (port_error s))"
    by (simp_all add: port_error_def)
  show ?thesis
    using cfg conn cls
    by (simp add: api_ok_def tls_test_def list_products_def delete_product_def
        insert_product_def update_product_def seq_def ret_def get_json_def internal_error_def
        is_configuration_error_def port_error_def)
qed

text \<open>The theorem at the deployment whose HANA_PORT is \<open>https\<close>.\<close>

theorem invalid_port_is_internal_witness:
  "api_ok bad_port (tls_test bad_port) world0 =
     (Inr (JObj [(''error'', JStr ''internal''),
                 (''message'', JStr (''invalid literal for int() with base 10: '' @ repr_str ''https'')),
                 (''trace'', JStr (format_exception bad_port (port_error ''https'')))], 500),
      world0) \<and>
   api_ok bad_port (list_products bad_port) world0 =
     api_ok bad_port (tls_test bad_port) world0"
  using invalid_port_is_internal [of bad_port "''https''" world0 "''Widget''" "[]"]
  by (simp add: py_int_https bad_port_def example_runtime_def internal_error_def port_error_def)

end
